theory Spec2Isabelle
  imports Main
begin

section \<open>JavaScript values reaching the builder\<close>

text \<open>
  The file \<^verbatim>\<open>http-helper.ts\<close> receives three untyped (\<^verbatim>\<open>any\<close>) inputs: the request
  body, the first argument of \<^verbatim>\<open>param\<close>, and whatever \<^verbatim>\<open>beforeHandler\<close> returns. They
  are modelled as plain data values: \<^verbatim>\<open>undefined\<close>, \<^verbatim>\<open>null\<close>, booleans, numbers,
  strings and objects. An object is given by its enumerable string-keyed data properties:
  first its own ones, in the order \<^verbatim>\<open>for..in\<close> visits them, then the ones it inherits from
  its prototype chain above \<^verbatim>\<open>Object.prototype\<close> (an array is the object whose own keys
  are its indices). Strings are sequences of code units below 256; the payload of a
  number plays no role in this file.
\<close>

datatype jsval =
    JUndefined
  | JNull
  | JBool bool
  | JNum int
  | JStr string
  | JObject "(string \<times> jsval) list" "(string \<times> jsval) list"

datatype error = TypeError

fun typeof :: "jsval \<Rightarrow> string" where
  "typeof JUndefined = ''undefined''"
| "typeof JNull = ''object''"
| "typeof (JBool b) = ''boolean''"
| "typeof (JNum n) = ''number''"
| "typeof (JStr s) = ''string''"
| "typeof (JObject own inh) = ''object''"

text \<open>
  The keys a \<^verbatim>\<open>for (let key in data)\<close> loop visits: own enumerable keys, then inherited
  ones that are not shadowed. For \<^verbatim>\<open>null\<close> and \<^verbatim>\<open>undefined\<close> the loop body never runs;
  booleans and numbers have no enumerable property. (A string would enumerate its
  indices, but \<^verbatim>\<open>param\<close> only loops when \<^verbatim>\<open>typeof data === "object"\<close>.)
\<close>

fun own_keys :: "jsval \<Rightarrow> string list" where
  "own_keys (JObject own inh) = map fst own"
| "own_keys v = []"

fun for_in_keys :: "jsval \<Rightarrow> string list" where
  "for_in_keys (JObject own inh) =
     map fst own @ filter (\<lambda>k. k \<notin> set (map fst own)) (map fst inh)"
| "for_in_keys v = []"

text \<open>
  Property lookup on the data part of the prototype chain; \<open>None\<close> means that the lookup
  reaches \<^verbatim>\<open>Object.prototype\<close>.
\<close>

fun lookup_property :: "jsval \<Rightarrow> string \<Rightarrow> jsval option" where
  "lookup_property (JObject own inh) k =
     (case map_of own k of Some v \<Rightarrow> Some v | None \<Rightarrow> map_of inh k)"
| "lookup_property v k = None"

text \<open>\<^verbatim>\<open>data[key]\<close> for a key that \<^verbatim>\<open>for..in\<close> produced.\<close>

definition get_property :: "jsval \<Rightarrow> string \<Rightarrow> jsval" where
  "get_property data key =
     (case lookup_property data key of Some v \<Rightarrow> v | None \<Rightarrow> JUndefined)"

text \<open>
  \<^verbatim>\<open>data.hasOwnProperty(key)\<close>: the method is looked up on \<^verbatim>\<open>data\<close> itself. When no data
  property of that name is in the way the lookup ends at the built-in
  \<^verbatim>\<open>Object.prototype.hasOwnProperty\<close>; when \<^verbatim>\<open>data\<close> has (or inherits) a data property
  called \<^verbatim>\<open>hasOwnProperty\<close>, its value is not callable and the call raises a TypeError.
\<close>

definition call_hasOwnProperty :: "jsval \<Rightarrow> string \<Rightarrow> error + bool" where
  "call_hasOwnProperty data key =
     (case lookup_property data ''hasOwnProperty'' of
        Some v \<Rightarrow> Inl TypeError
      | None \<Rightarrow> Inr (key \<in> set (own_keys data)))"

text \<open>Truthiness of the optional \<^verbatim>\<open>value?: string\<close> argument of \<^verbatim>\<open>param\<close>.\<close>

fun truthy :: "string option \<Rightarrow> bool" where
  "truthy None = False"
| "truthy (Some s) = (s \<noteq> [])"

section \<open>\<^verbatim>\<open>JSON.stringify\<close> on a string\<close>

text \<open>
  \<^verbatim>\<open>getBody\<close> calls \<^verbatim>\<open>JSON.stringify\<close> on strings only, where it is ECMAScript's
  QuoteJSONString: the text between double quotes, with the double quote, the backslash
  and the control characters below U+0020 escaped.
\<close>

abbreviation dquote :: char where "dquote \<equiv> CHR 0x22"
abbreviation backslash :: char where "backslash \<equiv> CHR 0x5C"

definition hex_digit :: "nat \<Rightarrow> char" where
  "hex_digit n = ''0123456789abcdef'' ! (n mod 16)"

definition UnicodeEscape :: "char \<Rightarrow> string" where
  "UnicodeEscape c =
     [backslash, CHR ''u'', CHR ''0'', CHR ''0'',
      hex_digit ((of_char c :: nat) div 16), hex_digit ((of_char c :: nat) mod 16)]"

definition QuoteJSONChar :: "char \<Rightarrow> string" where
  "QuoteJSONChar c =
     (if c = CHR 0x08 then [backslash, CHR ''b'']
      else if c = CHR 0x09 then [backslash, CHR ''t'']
      else if c = CHR 0x0A then [backslash, CHR ''n'']
      else if c = CHR 0x0C then [backslash, CHR ''f'']
      else if c = CHR 0x0D then [backslash, CHR ''r'']
      else if c = dquote then [backslash, dquote]
      else if c = backslash then [backslash, backslash]
      else if (of_char c :: nat) < 0x20 then UnicodeEscape c
      else [c])"

definition JSON_stringify :: "string \<Rightarrow> string" where
  "JSON_stringify s = [dquote] @ concat (map QuoteJSONChar s) @ [dquote]"

section \<open>The framework's immutable header and parameter collections\<close>

text \<open>
  \<^verbatim>\<open>HttpHeaders\<close> and \<^verbatim>\<open>HttpParams\<close> belong to the framework. The builder only ever
  creates an empty collection and calls \<^verbatim>\<open>append\<close>, which returns a new collection holding
  one more value and keeps every earlier one. A collection is therefore the sequence of
  the name/value pairs appended so far.
\<close>

type_synonym HttpHeaders = "(string \<times> string) list"
type_synonym HttpParams = "(string \<times> jsval) list"

definition HttpHeaders_append :: "HttpHeaders \<Rightarrow> string \<Rightarrow> string \<Rightarrow> HttpHeaders" where
  "HttpHeaders_append hs name v = hs @ [(name, v)]"

definition HttpParams_append :: "HttpParams \<Rightarrow> string \<Rightarrow> jsval \<Rightarrow> HttpParams" where
  "HttpParams_append ps name v = ps @ [(name, v)]"

section \<open>The enums\<close>

text \<open>
  Both enums are TypeScript numeric enums: their members are the numbers 0, 1, 2, ...
  in declaration order, and any number is assignable to the enum type. This is what gives
  the \<^verbatim>\<open>default\<close> branches of the two \<^verbatim>\<open>switch\<close> statements a meaning.
\<close>

type_synonym HttpMethod = int
type_synonym HttpContentType = int

definition Get :: HttpMethod where "Get = 0"
definition Post :: HttpMethod where "Post = 1"
definition Put :: HttpMethod where "Put = 2"
definition Delete :: HttpMethod where "Delete = 3"

definition FormUrlEncoded :: HttpContentType where "FormUrlEncoded = 0"
definition Json :: HttpContentType where "Json = 1"

section \<open>The request builder\<close>

text \<open>
  The fields of class \<^verbatim>\<open>HttpRequest\<close>. \<open>httpContentType\<close> has no initialiser: it is
  \<^verbatim>\<open>undefined\<close> (\<open>None\<close>) until \<^verbatim>\<open>contentType\<close> is called. An omitted \<^verbatim>\<open>body\<close> is
  \<^verbatim>\<open>undefined\<close>.
\<close>

record HttpRequest =
  httpMethod :: HttpMethod
  url :: string
  body :: jsval
  headers :: HttpHeaders
  httpContentType :: "HttpContentType option"
  parameters :: HttpParams

text \<open>
  Builders are objects with identity, and every configuration method mutates
  \<^verbatim>\<open>this\<close> and returns it. The objects live in a heap, a reference is an index into it,
  and a method takes the reference \<open>this\<close> and the heap.
\<close>

type_synonym ref = nat
type_synonym heap = "HttpRequest list"

definition new_HttpRequest :: "HttpMethod \<Rightarrow> string \<Rightarrow> jsval \<Rightarrow> heap \<Rightarrow> ref \<times> heap" where
  "new_HttpRequest m u b h =
     (length h,
      h @ [\<lparr>httpMethod = m, url = u, body = b, headers = [],
            httpContentType = None, parameters = []\<rparr>])"

subsection \<open>\<^verbatim>\<open>HttpHelper\<close>\<close>

definition HttpHelper_get :: "string \<Rightarrow> heap \<Rightarrow> ref \<times> heap" where
  "HttpHelper_get u h = new_HttpRequest Get u JUndefined h"

definition HttpHelper_post :: "string \<Rightarrow> jsval \<Rightarrow> heap \<Rightarrow> ref \<times> heap" where
  "HttpHelper_post u b h = new_HttpRequest Post u b h"

definition HttpHelper_put :: "string \<Rightarrow> jsval \<Rightarrow> heap \<Rightarrow> ref \<times> heap" where
  "HttpHelper_put u b h = new_HttpRequest Put u b h"

definition HttpHelper_delete :: "string \<Rightarrow> heap \<Rightarrow> ref \<times> heap" where
  "HttpHelper_delete u h = new_HttpRequest Delete u JUndefined h"

subsection \<open>Configuration methods\<close>

definition header :: "ref \<Rightarrow> string \<Rightarrow> string \<Rightarrow> heap \<Rightarrow> ref \<times> heap" where
  "header this name v h =
     (this, h[this := (h ! this)\<lparr>headers := HttpHeaders_append (headers (h ! this)) name v\<rparr>])"

definition contentType :: "ref \<Rightarrow> HttpContentType \<Rightarrow> heap \<Rightarrow> ref \<times> heap" where
  "contentType this ct h = (this, h[this := (h ! this)\<lparr>httpContentType := Some ct\<rparr>])"

text \<open>
  The \<^verbatim>\<open>for..in\<close> loop of \<^verbatim>\<open>param\<close>: each round calls \<^verbatim>\<open>data.hasOwnProperty(key)\<close> and,
  when that is true, replaces \<^verbatim>\<open>this.parameters\<close>. A TypeError leaves the loop with the
  heap as it is at that moment.
\<close>

fun param_loop :: "ref \<Rightarrow> jsval \<Rightarrow> string list \<Rightarrow> heap \<Rightarrow> error option \<times> heap" where
  "param_loop this data [] h = (None, h)"
| "param_loop this data (key # keys) h =
     (case call_hasOwnProperty data key of
        Inl e \<Rightarrow> (Some e, h)
      | Inr own \<Rightarrow>
          param_loop this data keys
            (if own
             then h[this := (h ! this)\<lparr>parameters :=
                    HttpParams_append (parameters (h ! this)) key (get_property data key)\<rparr>]
             else h))"

text \<open>The text of a value whose \<^verbatim>\<open>typeof\<close> is \<^verbatim>\<open>"string"\<close>.\<close>

fun string_of :: "jsval \<Rightarrow> string" where
  "string_of (JStr s) = s"
| "string_of v = []"

definition param :: "ref \<Rightarrow> jsval \<Rightarrow> string option \<Rightarrow> heap \<Rightarrow> (error + ref) \<times> heap" where
  "param this data v h =
     (if typeof data = ''object'' then
        (case param_loop this data (for_in_keys data) h of
           (Some e, h') \<Rightarrow> (Inl e, h')
         | (None, h') \<Rightarrow> (Inr this, h'))
      else if typeof data = ''string'' \<and> truthy v then
        (Inr this,
         h[this := (h ! this)\<lparr>parameters :=
             HttpParams_append (parameters (h ! this))
               (string_of data) (JStr (the v))\<rparr>])
      else (Inr this, h))"

subsection \<open>Sending\<close>

definition getContentType :: "HttpContentType option \<Rightarrow> string" where
  "getContentType ct =
     (if ct = Some FormUrlEncoded then ''application/x-www-form-urlencoded''
      else if ct = Some Json then ''application/json''
      else ''application/json'')"

definition setContentType :: "ref \<Rightarrow> heap \<Rightarrow> ref \<times> heap" where
  "setContentType this h =
     header this ''Content-Type'' (getContentType (httpContentType (h ! this))) h"

definition getBody :: "HttpRequest \<Rightarrow> jsval" where
  "getBody r =
     (if typeof (body r) = ''string'' then JStr (JSON_stringify (string_of (body r)))
      else body r)"

text \<open>
  The injected \<^verbatim>\<open>HttpClient\<close> is the framework's. A call of one of its four methods is
  recorded with its arguments; the observable it returns is the sequence of notifications
  the client produces for that call.
\<close>

record options =
  opt_headers :: HttpHeaders
  opt_params :: HttpParams

datatype client_call =
    ClientGet string options
  | ClientPost string jsval options
  | ClientPut string jsval options
  | ClientDelete string options

definition request :: "ref \<Rightarrow> heap \<Rightarrow> client_call \<times> heap" where
  "request this h =
     (let h1 = snd (setContentType this h);
          r = h1 ! this;
          opts = \<lparr>opt_headers = headers r, opt_params = parameters r\<rparr>
      in (if httpMethod r = Get then ClientGet (url r) opts
          else if httpMethod r = Post then ClientPost (url r) (getBody r) opts
          else if httpMethod r = Put then ClientPut (url r) (getBody r) opts
          else if httpMethod r = Delete then ClientDelete (url r) opts
          else ClientGet (url r) opts,
          h1))"

datatype notification = Next jsval | Error jsval | Complete

datatype event =
    Sent client_call
  | OnSuccess jsval
  | OnError jsval
  | OnComplete

text \<open>
  \<^verbatim>\<open>subscribe(handler, errorHandler, completeHandler)\<close>: each notification fires the
  callback registered for it, if there is one; nothing is delivered after an error or a
  completion. A callback is given by whether it was supplied.
\<close>

fun subscribe :: "notification list \<Rightarrow> bool \<Rightarrow> bool \<Rightarrow> bool \<Rightarrow> event list" where
  "subscribe [] hn he hc = []"
| "subscribe (Next v # ns) hn he hc =
     (if hn then [OnSuccess v] else []) @ subscribe ns hn he hc"
| "subscribe (Error e # ns) hn he hc = (if he then [OnError e] else [])"
| "subscribe (Complete # ns) hn he hc = (if hc then [OnComplete] else [])"

text \<open>
  \<^verbatim>\<open>handle\<close>. \<open>beforeHandler\<close> is \<open>None\<close> when the argument is omitted and \<open>Some v\<close> when
  a function returning \<open>v\<close> is supplied; \<open>client\<close> answers a call with its notifications.
  The result is what happened, in order (the call made, the callbacks fired), and the
  heap.
\<close>

definition handle ::
  "ref \<Rightarrow> bool \<Rightarrow> bool \<Rightarrow> jsval option \<Rightarrow> bool \<Rightarrow> (client_call \<Rightarrow> notification list)
     \<Rightarrow> heap \<Rightarrow> event list \<times> heap" where
  "handle this handler errorHandler beforeHandler completeHandler client h =
     (if beforeHandler \<noteq> None \<and> the beforeHandler = JBool False then ([], h)
      else
        (let (call, h') = request this h
         in (Sent call # subscribe (client call) handler errorHandler completeHandler, h')))"

section \<open>Observations on a run\<close>

text \<open>The options and the body a recorded client call was given.\<close>

fun call_options :: "client_call \<Rightarrow> options" where
  "call_options (ClientGet u opts) = opts"
| "call_options (ClientPost u b opts) = opts"
| "call_options (ClientPut u b opts) = opts"
| "call_options (ClientDelete u opts) = opts"

fun call_body :: "client_call \<Rightarrow> jsval option" where
  "call_body (ClientGet u opts) = None"
| "call_body (ClientPost u b opts) = Some b"
| "call_body (ClientPut u b opts) = Some b"
| "call_body (ClientDelete u opts) = None"

text \<open>The client calls among the events of a run.\<close>

definition sent_calls :: "event list \<Rightarrow> client_call list" where
  "sent_calls evs = concat (map (\<lambda>e. case e of Sent c \<Rightarrow> [c] | _ \<Rightarrow> []) evs)"

text \<open>The headers of a builder once \<^verbatim>\<open>setContentType\<close> has run on it.\<close>

definition finalHeaders :: "HttpRequest \<Rightarrow> HttpHeaders" where
  "finalHeaders r = headers r @ [(''Content-Type'', getContentType (httpContentType r))]"

text \<open>A builder fresh from the factory, and the heap that holds only it.\<close>

definition heap0 :: heap where
  "heap0 = snd (HttpHelper_post ''/api'' (JStr ''x'') [])"

section \<open>Basic facts about the methods\<close>

lemma header_this: "fst (header this name v h) = this"
  by (simp add: header_def)

lemma nth_header:
  "this < length h \<Longrightarrow>
   snd (header this name v h) ! this = (h ! this)\<lparr>headers := headers (h ! this) @ [(name, v)]\<rparr>"
  by (simp add: header_def HttpHeaders_append_def)

lemma contentType_this: "fst (contentType this ct h) = this"
  by (simp add: contentType_def)

lemma nth_contentType:
  "this < length h \<Longrightarrow>
   snd (contentType this ct h) ! this = (h ! this)\<lparr>httpContentType := Some ct\<rparr>"
  by (simp add: contentType_def)

lemma request_heap:
  "this < length h \<Longrightarrow>
   snd (request this h) = h[this := (h ! this)\<lparr>headers := finalHeaders (h ! this)\<rparr>]"
  by (simp add: request_def setContentType_def Let_def header_def HttpHeaders_append_def
      finalHeaders_def)

lemma request_call:
  assumes "this < length h"
  shows "fst (request this h) =
     (let r = h ! this;
          opts = \<lparr>opt_headers = finalHeaders r, opt_params = parameters r\<rparr>
      in if httpMethod r = Get then ClientGet (url r) opts
         else if httpMethod r = Post then ClientPost (url r) (getBody r) opts
         else if httpMethod r = Put then ClientPut (url r) (getBody r) opts
         else if httpMethod r = Delete then ClientDelete (url r) opts
         else ClientGet (url r) opts)"
  using assms
  by (simp add: request_def setContentType_def Let_def getBody_def header_def
      HttpHeaders_append_def finalHeaders_def)

lemma handle_cancelled:
  "bh = Some (JBool False) \<Longrightarrow> handle this hn he bh hc client h = ([], h)"
  by (simp add: handle_def)

lemma handle_sends:
  "bh \<noteq> Some (JBool False) \<Longrightarrow>
   handle this hn he bh hc client h =
     (Sent (fst (request this h)) # subscribe (client (fst (request this h))) hn he hc,
      snd (request this h))"
  by (cases bh) (auto simp add: handle_def split: prod.splits)

lemma sent_calls_Sent: "sent_calls (Sent c # evs) = c # sent_calls evs"
  by (simp add: sent_calls_def)

lemma sent_calls_subscribe: "sent_calls (subscribe ns hn he hc) = []"
  by (induction ns hn he hc rule: subscribe.induct) (simp_all add: sent_calls_def)

lemma sent_calls_handle:
  "sent_calls (fst (handle this hn he bh hc client h)) =
     (if bh = Some (JBool False) then [] else [fst (request this h)])"
  by (simp add: handle_cancelled handle_sends sent_calls_Sent sent_calls_subscribe)
    (simp add: sent_calls_def)

subsection \<open>\<^verbatim>\<open>param\<close>: the loop, and what the call leaves alone\<close>

lemma param_loop_raises:
  assumes "lookup_property data ''hasOwnProperty'' \<noteq> None" and "keys \<noteq> []"
  shows "param_loop this data keys h = (Some TypeError, h)"
  using assms by (cases keys) (auto simp add: call_hasOwnProperty_def)

lemma param_loop_appends:
  assumes "lookup_property data ''hasOwnProperty'' = None" and "this < length h"
  shows "param_loop this data keys h =
     (None, h[this := (h ! this)\<lparr>parameters := parameters (h ! this) @
        map (\<lambda>k. (k, get_property data k)) (filter (\<lambda>k. k \<in> set (own_keys data)) keys)\<rparr>])"
  using assms(2)
proof (induction keys arbitrary: h)
  case Nil
  then show ?case by simp
next
  case (Cons key keys)
  have call: "call_hasOwnProperty data key = Inr (key \<in> set (own_keys data))"
    using assms(1) by (simp add: call_hasOwnProperty_def)
  show ?case
  proof (cases "key \<in> set (own_keys data)")
    case True
    let ?h1 = "h[this := (h ! this)\<lparr>parameters :=
                 HttpParams_append (parameters (h ! this)) key (get_property data key)\<rparr>]"
    have len: "this < length ?h1" using Cons.prems by simp
    show ?thesis
      using True Cons.prems Cons.IH [OF len]
      by (simp add: call HttpParams_append_def)
  next
    case False
    then show ?thesis using Cons.prems Cons.IH [OF Cons.prems] by (simp add: call)
  qed
qed

lemma param_loop_frame:
  "\<exists>ps. snd (param_loop this data keys h) =
     h[this := (h ! this)\<lparr>parameters := parameters (h ! this) @ ps\<rparr>]"
proof (cases "this < length h")
  case False
  have "snd (param_loop this data keys h) = h"
    using False
  proof (induction keys)
    case Nil
    then show ?case by simp
  next
    case (Cons key keys)
    then show ?case by (simp add: list_update_beyond split: sum.splits)
  qed
  with False show ?thesis by (simp add: list_update_beyond)
next
  case True
  show ?thesis
  proof (cases "lookup_property data ''hasOwnProperty''")
    case None
    from param_loop_appends [OF None True] show ?thesis by auto
  next
    case (Some v)
    have "snd (param_loop this data keys h) = h"
      using Some by (cases keys) (simp_all add: call_hasOwnProperty_def)
    with True show ?thesis by (intro exI [of _ "[]"]) simp
  qed
qed

lemma own_filter:
  "filter (\<lambda>k. k \<in> set (own_keys (JObject own inh))) (for_in_keys (JObject own inh)) = map fst own"
  by (simp add: filter_empty_conv)

lemma own_values:
  "distinct (map fst own) \<Longrightarrow>
   map (\<lambda>k. (k, get_property (JObject own inh) k)) (map fst own) = own"
proof -
  assume d: "distinct (map fst own)"
  have "(k, v) \<in> set own \<Longrightarrow> get_property (JObject own inh) k = v" for k v
    using d by (simp add: get_property_def)
  then have "map (\<lambda>p. (fst p, get_property (JObject own inh) (fst p))) own = own"
    by (intro map_idI) auto
  then show ?thesis by (simp add: comp_def)
qed

lemma param_object_appends_own:
  assumes "lookup_property (JObject own inh) ''hasOwnProperty'' = None"
    and "distinct (map fst own)" and "this < length h"
  shows "param this (JObject own inh) v h =
           (Inr this, h[this := (h ! this)\<lparr>parameters := parameters (h ! this) @ own\<rparr>])"
proof -
  let ?data = "JObject own inh"
  have "param_loop this ?data (for_in_keys ?data) h =
      (None, h[this := (h ! this)\<lparr>parameters := parameters (h ! this) @
         map (\<lambda>k. (k, get_property ?data k))
           (filter (\<lambda>k. k \<in> set (own_keys ?data)) (for_in_keys ?data))\<rparr>])"
    using assms(1,3) by (rule param_loop_appends)
  then have "param_loop this ?data (for_in_keys ?data) h =
      (None, h[this := (h ! this)\<lparr>parameters := parameters (h ! this) @ own\<rparr>])"
    by (simp only: own_filter own_values [OF assms(2)])
  then show ?thesis
    by (simp add: param_def del: for_in_keys.simps)
qed

lemma param_string_pair:
  assumes "this < length h"
  shows "param this (JStr name) (Some v) h =
           (Inr this,
            if v = [] then h
            else h[this := (h ! this)\<lparr>parameters := parameters (h ! this) @ [(name, JStr v)]\<rparr>])"
  by (simp add: param_def HttpParams_append_def)

lemma param_ignores:
  assumes "typeof data \<noteq> ''object''" and "typeof data \<noteq> ''string'' \<or> v = None"
  shows "param this data v h = (Inr this, h)"
  using assms by (auto simp add: param_def)

lemma param_frame:
  "\<exists>ps. snd (param this data v h) =
     h[this := (h ! this)\<lparr>parameters := parameters (h ! this) @ ps\<rparr>]"
proof (cases "typeof data = ''object''")
  case True
  obtain ps where "snd (param_loop this data (for_in_keys data) h) =
      h[this := (h ! this)\<lparr>parameters := parameters (h ! this) @ ps\<rparr>]"
    using param_loop_frame by blast
  with True show ?thesis
    by (auto simp add: param_def split: prod.splits option.splits)
next
  case False
  show ?thesis
  proof (cases "typeof data = ''string'' \<and> truthy v")
    case True
    with False show ?thesis by (auto simp add: param_def HttpParams_append_def)
  next
    case no: False
    have "snd (param this data v h) = h"
      using False no by (auto simp add: param_def)
    then show ?thesis by (intro exI [of _ "[]"]) simp
  qed
qed

lemma param_tag:
  "this < length h \<Longrightarrow> httpContentType (snd (param this data v h) ! this) = httpContentType (h ! this)"
proof -
  assume len: "this < length h"
  obtain ps where "snd (param this data v h) =
      h[this := (h ! this)\<lparr>parameters := parameters (h ! this) @ ps\<rparr>]"
    using param_frame by blast
  with len show ?thesis by simp
qed

lemma param_examples:
  "parameters (snd (param 0 (JObject [(''a'', JStr ''1''), (''b'', JStr ''2'')] []) None heap0) ! 0) =
     [(''a'', JStr ''1''), (''b'', JStr ''2'')]"
  "parameters (snd (param 0 (JStr ''c'') (Some ''3'') heap0) ! 0) = [(''c'', JStr ''3'')]"
  "param 0 (JStr ''d'') None heap0 = (Inr 0, heap0)"
  by (simp_all add: param_def call_hasOwnProperty_def get_property_def HttpParams_append_def
      heap0_def HttpHelper_post_def new_HttpRequest_def)

lemma param_returns_this_or_raises:
  "fst (param this data pv h) = Inr this \<or> fst (param this data pv h) = Inl TypeError"
proof (cases "fst (param this data pv h)")
  case (Inl e)
  then show ?thesis by (cases e) simp
next
  case (Inr r)
  then have "r = this"
    by (auto simp add: param_def split: if_splits prod.splits option.splits)
  with Inr show ?thesis by simp
qed

lemma param_returns_this_unless_shadowed:
  assumes "lookup_property data ''hasOwnProperty'' = None"
  shows "fst (param this data pv h) = Inr this"
proof (cases "this < length h")
  case True
  with assms show ?thesis by (simp add: param_def param_loop_appends)
next
  case False
  have "fst (param_loop this data keys h) = None" for keys
    using assms False
    by (induction keys) (simp_all add: call_hasOwnProperty_def list_update_beyond)
  then have "fst (param_loop this data (for_in_keys data) h) = None" .
  then show ?thesis
    by (cases "param_loop this data (for_in_keys data) h") (simp add: param_def)
qed

section \<open>The factory\<close>

text \<open>
  Claim C5. Each of \<^verbatim>\<open>get(url)\<close>, \<^verbatim>\<open>post(url, body?)\<close>, \<^verbatim>\<open>put(url, body?)\<close> and
  \<^verbatim>\<open>delete(url)\<close> returns a new builder (a reference that was not live before, to an
  object added to a heap that is otherwise as it was) whose method is the corresponding
  one of Get, Post, Put, Delete, whose URL is the given one, whatever string it is, and
  whose body is the given one (\<^verbatim>\<open>undefined\<close> for get and delete).
\<close>

theorem factory_binds_method_url_body:
  "(\<exists>r. HttpHelper_get u h = (length h, h @ [r])
        \<and> httpMethod r = Get \<and> url r = u \<and> body r = JUndefined)
   \<and> (\<exists>r. HttpHelper_post u b h = (length h, h @ [r])
        \<and> httpMethod r = Post \<and> url r = u \<and> body r = b)
   \<and> (\<exists>r. HttpHelper_put u b h = (length h, h @ [r])
        \<and> httpMethod r = Put \<and> url r = u \<and> body r = b)
   \<and> (\<exists>r. HttpHelper_delete u h = (length h, h @ [r])
        \<and> httpMethod r = Delete \<and> url r = u \<and> body r = JUndefined)"
  by (simp add: HttpHelper_get_def HttpHelper_post_def HttpHelper_put_def
      HttpHelper_delete_def new_HttpRequest_def)

section \<open>Dispatch\<close>

text \<open>
  Claim C4. When \<^verbatim>\<open>handle\<close> sends, the one client call it makes is chosen by the bound
  method: Get gives the client's get, Post its post with the serialized body, Put its put
  with the serialized body, Delete its delete, and any other method value gives a get;
  each on the bound URL with the accumulated headers and parameters as options.
\<close>

theorem handle_dispatch_by_method:
  assumes "this < length h" and "bh \<noteq> Some (JBool False)"
  shows "let r = h ! this;
             opts = \<lparr>opt_headers = finalHeaders r, opt_params = parameters r\<rparr>;
             sent = sent_calls (fst (handle this hn he bh hc client h))
         in (httpMethod r = Get \<longrightarrow> sent = [ClientGet (url r) opts])
          \<and> (httpMethod r = Post \<longrightarrow> sent = [ClientPost (url r) (getBody r) opts])
          \<and> (httpMethod r = Put \<longrightarrow> sent = [ClientPut (url r) (getBody r) opts])
          \<and> (httpMethod r = Delete \<longrightarrow> sent = [ClientDelete (url r) opts])
          \<and> (httpMethod r \<notin> {Get, Post, Put, Delete} \<longrightarrow> sent = [ClientGet (url r) opts])"
  using assms
  by (simp add: sent_calls_handle request_call Let_def Get_def Post_def Put_def Delete_def)

theorem handle_dispatch_by_method_witness:
  "let h = snd (contentType 0 FormUrlEncoded heap0)
   in (0::nat) < length h \<and> Some (JBool True) \<noteq> Some (JBool False)
      \<and> httpMethod (h ! 0) = Post
      \<and> sent_calls (fst (handle 0 True False (Some (JBool True)) False (\<lambda>c. [Complete]) h)) =
          [ClientPost ''/api'' (JStr [dquote, CHR ''x'', dquote])
             \<lparr>opt_headers = [(''Content-Type'', ''application/x-www-form-urlencoded'')],
              opt_params = []\<rparr>]"
  using handle_dispatch_by_method [of 0 "snd (contentType 0 FormUrlEncoded heap0)"
      "Some (JBool True)" True False False "\<lambda>c. [Complete]"]
  by (simp add: Let_def heap0_def HttpHelper_post_def new_HttpRequest_def contentType_def
      finalHeaders_def getContentType_def getBody_def JSON_stringify_def QuoteJSONChar_def
      Post_def Get_def FormUrlEncoded_def)

text \<open>
  Claim C2. \<^verbatim>\<open>handle\<close> makes a client call if and only if \<^verbatim>\<open>beforeHandler\<close> is absent
  or returns something other than exactly \<^verbatim>\<open>false\<close>; when it is supplied and returns
  exactly \<^verbatim>\<open>false\<close>, nothing happens at all: no call, no callback, and the heap is as it
  was.
\<close>

theorem handle_dispatches_iff_not_cancelled:
  "(sent_calls (fst (handle this hn he bh hc client h)) \<noteq> []
      \<longleftrightarrow> (bh = None \<or> (\<exists>v. bh = Some v \<and> v \<noteq> JBool False)))
   \<and> (bh = Some (JBool False) \<longrightarrow> handle this hn he bh hc client h = ([], h))"
  by (cases bh) (auto simp add: sent_calls_handle handle_cancelled)

theorem handle_dispatches_iff_not_cancelled_witness:
  "handle 0 True True (Some (JBool False)) True (\<lambda>c. [Next JNull, Complete]) heap0 = ([], heap0)
   \<and> sent_calls (fst (handle 0 True True (Some JUndefined) True (\<lambda>c. [Next JNull, Complete]) heap0)) \<noteq> []
   \<and> sent_calls (fst (handle 0 True True None True (\<lambda>c. [Next JNull, Complete]) heap0)) \<noteq> []"
  using handle_dispatches_iff_not_cancelled [of 0 True True "Some (JBool False)" True
      "\<lambda>c. [Next JNull, Complete]" heap0]
    handle_dispatches_iff_not_cancelled [of 0 True True "Some JUndefined" True
      "\<lambda>c. [Next JNull, Complete]" heap0]
    handle_dispatches_iff_not_cancelled [of 0 True True None True
      "\<lambda>c. [Next JNull, Complete]" heap0]
  by simp

section \<open>Content type and headers at send time\<close>

text \<open>
  Claim C1. When \<^verbatim>\<open>handle\<close> sends, the content-type tag is mapped to its MIME string
  and applied as the \<^verbatim>\<open>Content-Type\<close> header, the last one of the request: with the tag
  FormUrlEncoded the request carries \<^verbatim>\<open>application/x-www-form-urlencoded\<close>, with the
  tag unset or Json it carries \<^verbatim>\<open>application/json\<close>. The tag is what the last
  \<^verbatim>\<open>contentType\<close> call set: \<^verbatim>\<open>contentType\<close> stores its argument, \<^verbatim>\<open>header\<close> and
  \<^verbatim>\<open>param\<close> leave the tag alone, and a new builder has none.
\<close>

theorem handle_applies_content_type:
  assumes "this < length h" and "bh \<noteq> Some (JBool False)"
  shows "(\<exists>c. sent_calls (fst (handle this hn he bh hc client h)) = [c]
            \<and> (httpContentType (h ! this) = Some FormUrlEncoded \<longrightarrow>
                 last (opt_headers (call_options c)) =
                   (''Content-Type'', ''application/x-www-form-urlencoded''))
            \<and> (httpContentType (h ! this) = None \<or> httpContentType (h ! this) = Some Json \<longrightarrow>
                 last (opt_headers (call_options c)) = (''Content-Type'', ''application/json'')))
       \<and> httpContentType (snd (contentType this ct h) ! this) = Some ct
       \<and> httpContentType (snd (header this name v h) ! this) = httpContentType (h ! this)
       \<and> httpContentType (snd (param this data pv h) ! this) = httpContentType (h ! this)
       \<and> httpContentType (snd (new_HttpRequest m u b h) ! fst (new_HttpRequest m u b h)) = None"
proof -
  have opts: "call_options (fst (request this h)) =
      \<lparr>opt_headers = finalHeaders (h ! this), opt_params = parameters (h ! this)\<rparr>"
    using assms(1) by (simp add: request_call Let_def)
  have sent: "sent_calls (fst (handle this hn he bh hc client h)) = [fst (request this h)]"
    using assms(2) by (simp add: sent_calls_handle)
  have mime: "getContentType (Some FormUrlEncoded) = ''application/x-www-form-urlencoded''"
    "getContentType (Some Json) = ''application/json''"
    "getContentType None = ''application/json''"
    by (simp_all add: getContentType_def FormUrlEncoded_def Json_def)
  have "\<exists>c. sent_calls (fst (handle this hn he bh hc client h)) = [c]
            \<and> (httpContentType (h ! this) = Some FormUrlEncoded \<longrightarrow>
                 last (opt_headers (call_options c)) =
                   (''Content-Type'', ''application/x-www-form-urlencoded''))
            \<and> (httpContentType (h ! this) = None \<or> httpContentType (h ! this) = Some Json \<longrightarrow>
                 last (opt_headers (call_options c)) = (''Content-Type'', ''application/json''))"
    using mime by (auto simp add: sent opts finalHeaders_def)
  moreover have "httpContentType (snd (contentType this ct h) ! this) = Some ct"
    using assms(1) by (simp add: nth_contentType)
  moreover have "httpContentType (snd (header this name v h) ! this) = httpContentType (h ! this)"
    using assms(1) by (simp add: nth_header)
  moreover have "httpContentType (snd (param this data pv h) ! this) = httpContentType (h ! this)"
    using assms(1) by (rule param_tag)
  moreover have "httpContentType (snd (new_HttpRequest m u b h) ! fst (new_HttpRequest m u b h)) = None"
    by (simp add: new_HttpRequest_def)
  ultimately show ?thesis by blast
qed

theorem handle_applies_content_type_witness:
  "(0::nat) < length heap0 \<and> (None :: jsval option) \<noteq> Some (JBool False)
   \<and> httpContentType (heap0 ! 0) = None
   \<and> (\<exists>c. sent_calls (fst (handle 0 True True None True (\<lambda>c. []) heap0)) = [c]
          \<and> last (opt_headers (call_options c)) = (''Content-Type'', ''application/json''))
   \<and> httpContentType (snd (contentType 0 FormUrlEncoded heap0) ! 0) = Some FormUrlEncoded"
  using handle_applies_content_type [of 0 heap0 None True True True "\<lambda>c. []" FormUrlEncoded
      "''X-Id''" "''7''" JNull None Get "''/u''" JUndefined]
  by (auto simp add: heap0_def HttpHelper_post_def new_HttpRequest_def)

text \<open>
  Claim C9. Finalizing the content type appends to the header collection and removes or
  replaces nothing: the headers given to the client are the ones accumulated before
  \<^verbatim>\<open>handle\<close>, in order, followed by the mapped one. So after
  \<^verbatim>\<open>header("Content-Type", v)\<close> the request carries both \<open>v\<close> and the mapped value.
\<close>

theorem handle_keeps_earlier_headers:
  assumes "this < length h" and "bh \<noteq> Some (JBool False)"
  shows "\<exists>c. sent_calls (fst (handle this hn he bh hc client h)) = [c]
           \<and> opt_headers (call_options c) =
               headers (h ! this) @
               [(''Content-Type'', getContentType (httpContentType (h ! this)))]
           \<and> set (headers (h ! this)) \<subseteq> set (opt_headers (call_options c))
           \<and> (\<forall>h0 v. h = snd (header this ''Content-Type'' v h0) \<and> this < length h0 \<longrightarrow>
                 (''Content-Type'', v) \<in> set (opt_headers (call_options c))
               \<and> (''Content-Type'', getContentType (httpContentType (h0 ! this)))
                    \<in> set (opt_headers (call_options c)))"
proof -
  have opts: "call_options (fst (request this h)) =
      \<lparr>opt_headers = finalHeaders (h ! this), opt_params = parameters (h ! this)\<rparr>"
    using assms(1) by (simp add: request_call Let_def)
  have sent: "sent_calls (fst (handle this hn he bh hc client h)) = [fst (request this h)]"
    using assms(2) by (simp add: sent_calls_handle)
  let ?sent = "headers (h ! this) @
      [(''Content-Type'', getContentType (httpContentType (h ! this)))]"
  have eq: "opt_headers (call_options (fst (request this h))) = ?sent"
    by (simp add: opts finalHeaders_def)
  have "(''Content-Type'', v) \<in> set ?sent
      \<and> (''Content-Type'', getContentType (httpContentType (h0 ! this))) \<in> set ?sent"
    if "h = snd (header this ''Content-Type'' v h0) \<and> this < length h0" for h0 v
    using that by (simp add: nth_header)
  then show ?thesis
    unfolding sent using eq by auto
qed

theorem handle_keeps_earlier_headers_witness:
  "(0::nat) < length (snd (header 0 ''Content-Type'' ''text/plain'' heap0))
   \<and> Some JNull \<noteq> Some (JBool False)
   \<and> (\<exists>c. sent_calls (fst (handle 0 True True (Some JNull) True (\<lambda>c. [])
              (snd (header 0 ''Content-Type'' ''text/plain'' heap0)))) = [c]
          \<and> opt_headers (call_options c) =
               [(''Content-Type'', ''text/plain''), (''Content-Type'', ''application/json'')])"
  using handle_keeps_earlier_headers [of 0 "snd (header 0 ''Content-Type'' ''text/plain'' heap0)"
      "Some JNull" True True True "\<lambda>c. []"]
  by (auto simp add: heap0_def HttpHelper_post_def new_HttpRequest_def header_def
      HttpHeaders_append_def getContentType_def)

section \<open>The body\<close>

text \<open>
  Claim C3. For a Post or Put builder, a string body \<open>s\<close> is sent as its JSON-quoted form
  (\<^verbatim>\<open>x\<close> is sent as the three characters double quote, \<^verbatim>\<open>x\<close>, double quote), and a
  body that is not a string is handed to the client as it is.
\<close>

theorem handle_serializes_body:
  assumes "this < length h" and "bh \<noteq> Some (JBool False)"
    and "httpMethod (h ! this) = Post \<or> httpMethod (h ! this) = Put"
  shows "(\<exists>c. sent_calls (fst (handle this hn he bh hc client h)) = [c]
            \<and> (\<forall>s. body (h ! this) = JStr s \<longrightarrow> call_body c = Some (JStr (JSON_stringify s)))
            \<and> (typeof (body (h ! this)) \<noteq> ''string'' \<longrightarrow> call_body c = Some (body (h ! this))))
       \<and> JSON_stringify ''x'' = [dquote, CHR ''x'', dquote]"
proof -
  have sent: "sent_calls (fst (handle this hn he bh hc client h)) = [fst (request this h)]"
    using assms(2) by (simp add: sent_calls_handle)
  have "call_body (fst (request this h)) = Some (getBody (h ! this))"
    using assms(1,3) by (auto simp add: request_call Let_def Get_def Post_def Put_def)
  moreover have "body (h ! this) = JStr s \<Longrightarrow> getBody (h ! this) = JStr (JSON_stringify s)" for s
    by (simp add: getBody_def)
  moreover have "typeof (body (h ! this)) \<noteq> ''string'' \<Longrightarrow> getBody (h ! this) = body (h ! this)"
    by (simp add: getBody_def)
  moreover have "JSON_stringify ''x'' = [dquote, CHR ''x'', dquote]"
    by (simp add: JSON_stringify_def QuoteJSONChar_def)
  ultimately show ?thesis using sent by auto
qed

theorem handle_serializes_body_witness:
  "(0::nat) < length heap0 \<and> (None :: jsval option) \<noteq> Some (JBool False)
   \<and> httpMethod (heap0 ! 0) = Post \<and> body (heap0 ! 0) = JStr ''x''
   \<and> (\<exists>c. sent_calls (fst (handle 0 True True None True (\<lambda>c. []) heap0)) = [c]
          \<and> call_body c = Some (JStr [dquote, CHR ''x'', dquote]))"
  using handle_serializes_body [of 0 heap0 None True True True "\<lambda>c. []"]
  by (auto simp add: heap0_def HttpHelper_post_def new_HttpRequest_def)

section \<open>Query parameters\<close>

text \<open>
  Claim C10. \<^verbatim>\<open>param(null)\<close> is a no-op: \<^verbatim>\<open>typeof null\<close> is \<^verbatim>\<open>"object"\<close>, so the call
  takes the object branch, whose loop visits no key; no error is raised, the same builder
  is returned and nothing in the heap changes.
\<close>

theorem param_null_is_noop:
  "typeof JNull = ''object'' \<and> for_in_keys JNull = [] \<and> param this JNull v h = (Inr this, h)"
  by (simp add: param_def)

text \<open>
  Claim C7, as stated: for every pair of strings \<open>name\<close> and \<open>value\<close>, the empty string
  included, \<^verbatim>\<open>param(name, value)\<close> appends exactly that pair. The guard of the string
  branch is \<^verbatim>\<open>typeof data === "string" && value\<close>, and the empty string is falsy:
  \<^verbatim>\<open>param("a", "")\<close> changes nothing.
\<close>

theorem param_empty_value_not_appended:
  "snd (param 0 (JStr ''a'') (Some '''') heap0) = heap0
   \<and> parameters (snd (param 0 (JStr ''a'') (Some '''') heap0) ! 0)
       \<noteq> parameters (heap0 ! 0) @ [(''a'', JStr '''')]"
  by (simp add: param_def)

text \<open>
  Claim C7, amended: for every string \<open>name\<close> and every non-empty string \<open>value\<close>,
  \<^verbatim>\<open>param(name, value)\<close> appends exactly the pair \<open>(name, value)\<close> to the parameters of
  the builder, changes nothing else and returns the builder; with the empty string as
  value it appends nothing.
\<close>

theorem param_pair_appended_when_value_nonempty:
  assumes "this < length h"
  shows "(v \<noteq> [] \<longrightarrow>
            param this (JStr name) (Some v) h =
              (Inr this,
               h[this := (h ! this)\<lparr>parameters := parameters (h ! this) @ [(name, JStr v)]\<rparr>])
          \<and> parameters (snd (param this (JStr name) (Some v) h) ! this) =
              parameters (h ! this) @ [(name, JStr v)])
       \<and> param this (JStr name) (Some []) h = (Inr this, h)"
  using assms by (simp add: param_string_pair)

theorem param_pair_appended_when_value_nonempty_witness:
  "(0::nat) < length heap0 \<and> ''3'' \<noteq> []
   \<and> parameters (snd (param 0 (JStr ''c'') (Some ''3'') heap0) ! 0) = [(''c'', JStr ''3'')]
   \<and> param 0 (JStr ''c'') (Some []) heap0 = (Inr 0, heap0)"
  using param_pair_appended_when_value_nonempty [of 0 heap0 "''3''" "''c''"]
  by (auto simp add: heap0_def HttpHelper_post_def new_HttpRequest_def)

text \<open>
  Claim C6 says that every own enumerable property of an object argument is appended.
  The loop asks \<^verbatim>\<open>data.hasOwnProperty(key)\<close> on the argument itself, so an object with a
  property named \<^verbatim>\<open>hasOwnProperty\<close> makes the first round raise a TypeError:
  \<^verbatim>\<open>param({a: "1", hasOwnProperty: "2"})\<close> appends nothing, not even \<^verbatim>\<open>a=1\<close>. The other
  parts of the claim hold (\<open>param_examples\<close>, \<open>param_ignores\<close>), and so does this part for
  every object without such a property (\<open>param_object_appends_own\<close>).
\<close>

theorem param_object_shadowing_hasOwnProperty_raises:
  "param 0 (JObject [(''a'', JStr ''1''), (''hasOwnProperty'', JStr ''2'')] []) None heap0 =
     (Inl TypeError, heap0)"
  by (simp add: param_def call_hasOwnProperty_def)

text \<open>
  Claim C8 says that \<^verbatim>\<open>header\<close>, \<^verbatim>\<open>contentType\<close> and \<^verbatim>\<open>param\<close> return the builder
  they were called on, for every argument. \<^verbatim>\<open>header\<close> and \<^verbatim>\<open>contentType\<close> do
  (\<open>header_this\<close>, \<open>contentType_this\<close>), and \<^verbatim>\<open>param\<close> does whenever it returns
  (\<open>param_returns_this_or_raises\<close>, \<open>param_returns_this_unless_shadowed\<close>); on
  \<^verbatim>\<open>param({hasOwnProperty: "1"})\<close> it returns nothing: the call raises a TypeError.
\<close>

theorem param_does_not_return_this:
  "fst (param 0 (JObject [(''hasOwnProperty'', JStr ''1'')] []) None heap0) \<noteq> Inr 0
   \<and> fst (param 0 (JObject [(''hasOwnProperty'', JStr ''1'')] []) None heap0) = Inl TypeError"
  by (simp add: param_def call_hasOwnProperty_def)

end
